theory Spec2Isabelle
  imports Main
begin

section \<open>The task record and the task mapping\<close>

text \<open>
  Go strings and byte slices are sequences of bytes; \<open>string\<close> is a list of 8-bit
  characters. The string literals of the source that are not ASCII are written out as
  the UTF-8 bytes the compiler stores for them.
\<close>

type_synonym bytes = string

text \<open>
  A slice of strings is \<open>None\<close> when it is the nil slice and \<open>Some xs\<close> otherwise:
  \<open>len\<close> gives 0 for both the nil and the empty slice, but the two are different
  values of the field.
\<close>

type_synonym strings = "string list option"

definition len :: "strings \<Rightarrow> nat" where
  "len s = (case s of None \<Rightarrow> 0 | Some xs \<Rightarrow> length xs)"

record Task =
  ID :: string
  Description :: string
  Note :: string
  Applications :: strings

text \<open>
  The package variable \<open>tasks\<close>; this is the value it is initialised with. The
  descriptions and notes are Russian sentences: each Cyrillic letter is two bytes, so the
  description of task "1" (39 characters, ending in " REST API") is 66 bytes long.
\<close>

definition tasks :: "string \<rightharpoonup> Task" where
  "tasks = [
    ''1'' \<mapsto> \<lparr>
      ID = ''1'',
      Description = ([CHR 0xD0, CHR 0xA1, CHR 0xD0, CHR 0xB4, CHR 0xD0, CHR 0xB5, CHR 0xD0,
                      CHR 0xBB, CHR 0xD0, CHR 0xB0, CHR 0xD1, CHR 0x82, CHR 0xD1, CHR 0x8C,
                      CHR 0x20, CHR 0xD1, CHR 0x84, CHR 0xD0, CHR 0xB8, CHR 0xD0, CHR 0xBD,
                      CHR 0xD0, CHR 0xB0, CHR 0xD0, CHR 0xBB, CHR 0xD1, CHR 0x8C, CHR 0xD0,
                      CHR 0xBD, CHR 0xD0, CHR 0xBE, CHR 0xD0, CHR 0xB5, CHR 0x20, CHR 0xD0,
                      CHR 0xB7, CHR 0xD0, CHR 0xB0, CHR 0xD0, CHR 0xB4, CHR 0xD0, CHR 0xB0,
                      CHR 0xD0, CHR 0xBD, CHR 0xD0, CHR 0xB8, CHR 0xD0, CHR 0xB5, CHR 0x20,
                      CHR 0xD1, CHR 0x82, CHR 0xD0, CHR 0xB5, CHR 0xD0, CHR 0xBC, CHR 0xD1,
                      CHR 0x8B] @
                     '' REST API''),
      Note = [CHR 0xD0, CHR 0x95, CHR 0xD1, CHR 0x81, CHR 0xD0, CHR 0xBB, CHR 0xD0,
               CHR 0xB8, CHR 0x20, CHR 0xD1, CHR 0x81, CHR 0xD0, CHR 0xB5, CHR 0xD0,
               CHR 0xB3, CHR 0xD0, CHR 0xBE, CHR 0xD0, CHR 0xB4, CHR 0xD0, CHR 0xBD,
               CHR 0xD1, CHR 0x8F, CHR 0x20, CHR 0xD1, CHR 0x81, CHR 0xD0, CHR 0xB4,
               CHR 0xD0, CHR 0xB5, CHR 0xD0, CHR 0xBB, CHR 0xD0, CHR 0xB0, CHR 0xD1,
               CHR 0x8E, CHR 0x2C, CHR 0x20, CHR 0xD1, CHR 0x82, CHR 0xD0, CHR 0xBE,
               CHR 0x20, CHR 0xD0, CHR 0xB7, CHR 0xD0, CHR 0xB0, CHR 0xD0, CHR 0xB2,
               CHR 0xD1, CHR 0x82, CHR 0xD1, CHR 0x80, CHR 0xD0, CHR 0xB0, CHR 0x20,
               CHR 0xD0, CHR 0xB1, CHR 0xD1, CHR 0x83, CHR 0xD0, CHR 0xB4, CHR 0xD0,
               CHR 0xB5, CHR 0xD1, CHR 0x82, CHR 0x20, CHR 0xD1, CHR 0x81, CHR 0xD0,
               CHR 0xB2, CHR 0xD0, CHR 0xBE, CHR 0xD0, CHR 0xB1, CHR 0xD0, CHR 0xBE,
               CHR 0xD0, CHR 0xB4, CHR 0xD0, CHR 0xBD, CHR 0xD1, CHR 0x8B, CHR 0xD0,
               CHR 0xB9, CHR 0x20, CHR 0xD0, CHR 0xB4, CHR 0xD0, CHR 0xB5, CHR 0xD0,
               CHR 0xBD, CHR 0xD1, CHR 0x8C, CHR 0x2E, CHR 0x20, CHR 0xD0, CHR 0xA3,
               CHR 0xD1, CHR 0x80, CHR 0xD0, CHR 0xB0, CHR 0x21],
      Applications = Some [''VS Code'', ''Terminal'', ''git'']\<rparr>,
    ''2'' \<mapsto> \<lparr>
      ID = ''2'',
      Description = ([CHR 0xD0, CHR 0x9F, CHR 0xD1, CHR 0x80, CHR 0xD0, CHR 0xBE, CHR 0xD1,
                      CHR 0x82, CHR 0xD0, CHR 0xB5, CHR 0xD1, CHR 0x81, CHR 0xD1, CHR 0x82,
                      CHR 0xD0, CHR 0xB8, CHR 0xD1, CHR 0x80, CHR 0xD0, CHR 0xBE, CHR 0xD0,
                      CHR 0xB2, CHR 0xD0, CHR 0xB0, CHR 0xD1, CHR 0x82, CHR 0xD1, CHR 0x8C,
                      CHR 0x20, CHR 0xD1, CHR 0x84, CHR 0xD0, CHR 0xB8, CHR 0xD0, CHR 0xBD,
                      CHR 0xD0, CHR 0xB0, CHR 0xD0, CHR 0xBB, CHR 0xD1, CHR 0x8C, CHR 0xD0,
                      CHR 0xBD, CHR 0xD0, CHR 0xBE, CHR 0xD0, CHR 0xB5, CHR 0x20, CHR 0xD0,
                      CHR 0xB7, CHR 0xD0, CHR 0xB0, CHR 0xD0, CHR 0xB4, CHR 0xD0, CHR 0xB0,
                      CHR 0xD0, CHR 0xBD, CHR 0xD0, CHR 0xB8, CHR 0xD0, CHR 0xB5, CHR 0x20,
                      CHR 0xD1, CHR 0x81, CHR 0x20, CHR 0xD0, CHR 0xBF, CHR 0xD0, CHR 0xBE,
                      CHR 0xD0, CHR 0xBC, CHR 0xD0, CHR 0xBE, CHR 0xD1, CHR 0x89, CHR 0xD1,
                      CHR 0x8C, CHR 0xD1, CHR 0x8E] @
                     '' Postmen''),
      Note = [CHR 0xD0, CHR 0x9B, CHR 0xD1, CHR 0x83, CHR 0xD1, CHR 0x87, CHR 0xD1,
               CHR 0x88, CHR 0xD0, CHR 0xB5, CHR 0x20, CHR 0xD1, CHR 0x8D, CHR 0xD1,
               CHR 0x82, CHR 0xD0, CHR 0xBE, CHR 0x20, CHR 0xD0, CHR 0xB4, CHR 0xD0,
               CHR 0xB5, CHR 0xD0, CHR 0xBB, CHR 0xD0, CHR 0xB0, CHR 0xD1, CHR 0x82,
               CHR 0xD1, CHR 0x8C, CHR 0x20, CHR 0xD0, CHR 0xB2, CHR 0x20, CHR 0xD0,
               CHR 0xBF, CHR 0xD1, CHR 0x80, CHR 0xD0, CHR 0xBE, CHR 0xD1, CHR 0x86,
               CHR 0xD0, CHR 0xB5, CHR 0xD1, CHR 0x81, CHR 0xD1, CHR 0x81, CHR 0xD0,
               CHR 0xB5, CHR 0x20, CHR 0xD1, CHR 0x80, CHR 0xD0, CHR 0xB0, CHR 0xD0,
               CHR 0xB7, CHR 0xD1, CHR 0x80, CHR 0xD0, CHR 0xB0, CHR 0xD0, CHR 0xB1,
               CHR 0xD0, CHR 0xBE, CHR 0xD1, CHR 0x82, CHR 0xD0, CHR 0xBA, CHR 0xD0,
               CHR 0xB8, CHR 0x2C, CHR 0x20, CHR 0xD0, CHR 0xBA, CHR 0xD0, CHR 0xB0,
               CHR 0xD0, CHR 0xB6, CHR 0xD0, CHR 0xB4, CHR 0xD1, CHR 0x8B, CHR 0xD0,
               CHR 0xB9, CHR 0x20, CHR 0xD1, CHR 0x80, CHR 0xD0, CHR 0xB0, CHR 0xD0,
               CHR 0xB7, CHR 0x2C, CHR 0x20, CHR 0xD0, CHR 0xBA, CHR 0xD0, CHR 0xBE,
               CHR 0xD0, CHR 0xB3, CHR 0xD0, CHR 0xB4, CHR 0xD0, CHR 0xB0, CHR 0x20,
               CHR 0xD0, CHR 0xB7, CHR 0xD0, CHR 0xB0, CHR 0xD0, CHR 0xBF, CHR 0xD1,
               CHR 0x83, CHR 0xD1, CHR 0x81, CHR 0xD0, CHR 0xBA, CHR 0xD0, CHR 0xB0,
               CHR 0xD0, CHR 0xB5, CHR 0xD1, CHR 0x88, CHR 0xD1, CHR 0x8C, CHR 0x20,
               CHR 0xD1, CHR 0x81, CHR 0xD0, CHR 0xB5, CHR 0xD1, CHR 0x80, CHR 0xD0,
               CHR 0xB2, CHR 0xD0, CHR 0xB5, CHR 0xD1, CHR 0x80, CHR 0x20, CHR 0xD0,
               CHR 0xB8, CHR 0x20, CHR 0xD0, CHR 0xBF, CHR 0xD1, CHR 0x80, CHR 0xD0,
               CHR 0xBE, CHR 0xD0, CHR 0xB2, CHR 0xD0, CHR 0xB5, CHR 0xD1, CHR 0x80,
               CHR 0xD1, CHR 0x8F, CHR 0xD0, CHR 0xB5, CHR 0xD1, CHR 0x88, CHR 0xD1,
               CHR 0x8C, CHR 0x20, CHR 0xD1, CHR 0x85, CHR 0xD0, CHR 0xB5, CHR 0xD0,
               CHR 0xBD, CHR 0xD0, CHR 0xB4, CHR 0xD0, CHR 0xBB, CHR 0xD0, CHR 0xB5,
               CHR 0xD1, CHR 0x80],
      Applications = Some [''VS Code'', ''Terminal'', ''git'', ''Postman'']\<rparr>]"

section \<open>Requests and responses\<close>

text \<open>
  What a handler reads of a request: the URL parameters the router extracted from the
  path, and the body. Reading the body either fails with an error (\<open>Inl\<close>, carrying the
  text of \<open>err.Error()\<close>) or gives its bytes.
\<close>

record Request =
  URLParams :: "string \<rightharpoonup> string"
  Body :: "string + bytes"

text \<open>\<open>chi.URLParam\<close> gives the empty string for a parameter the route does not have.\<close>

definition URLParam :: "Request \<Rightarrow> string \<Rightarrow> string" where
  "URLParam request key = (case URLParams request key of None \<Rightarrow> [] | Some v \<Rightarrow> v)"

text \<open>
  The response writer: the header map, the status code once it has been written, and the
  bytes of the body written so far.
\<close>

record ResponseWriter =
  header :: "string \<rightharpoonup> string"
  status :: "nat option"
  body :: bytes

text \<open>The writer a handler is given for a new request.\<close>

definition new_writer :: ResponseWriter where
  "new_writer = \<lparr>header = Map.empty, status = None, body = []\<rparr>"

definition StatusOK :: nat where "StatusOK = 200"
definition StatusCreated :: nat where "StatusCreated = 201"
definition StatusBadRequest :: nat where "StatusBadRequest = 400"
definition StatusInternalServerError :: nat where "StatusInternalServerError = 500"

text \<open>
  \<open>writer.Header().Set\<close>, \<open>writer.WriteHeader\<close> and \<open>writer.Write\<close>. The header is
  sent with the status code, so only the first \<open>WriteHeader\<close> counts and a header set after
  it is not part of the response; a \<open>Write\<close> before any \<open>WriteHeader\<close> sends status 200.
\<close>

definition Header_Set :: "ResponseWriter \<Rightarrow> string \<Rightarrow> string \<Rightarrow> ResponseWriter" where
  "Header_Set w k v = (if status w = None then w\<lparr>header := (header w)(k \<mapsto> v)\<rparr> else w)"

definition WriteHeader :: "ResponseWriter \<Rightarrow> nat \<Rightarrow> ResponseWriter" where
  "WriteHeader w code = (if status w = None then w\<lparr>status := Some code\<rparr> else w)"

definition Write :: "ResponseWriter \<Rightarrow> bytes \<Rightarrow> ResponseWriter" where
  "Write w p = (let w' = WriteHeader w StatusOK in w'\<lparr>body := body w' @ p\<rparr>)"

text \<open>
  \<open>http.Error\<close> of net/http: it sets the content type to plain text, writes the status
  code, and prints the message with \<open>fmt.Fprintln\<close>, that is, followed by a line feed.
\<close>

definition Fprintln :: "ResponseWriter \<Rightarrow> string \<Rightarrow> ResponseWriter" where
  "Fprintln w s = Write w (s @ [CHR 0x0A])"

definition http_Error :: "ResponseWriter \<Rightarrow> string \<Rightarrow> nat \<Rightarrow> ResponseWriter" where
  "http_Error w error code =
     Fprintln
       (WriteHeader
         (Header_Set
           (Header_Set w ''Content-Type'' ''text/plain; charset=utf-8'')
           ''X-Content-Type-Options'' ''nosniff'')
         code)
       error"

section \<open>The handlers\<close>

text \<open>
  The handlers read and assign the package variable \<open>tasks\<close>: each takes the mapping
  as it is when the request arrives and returns it as it is afterwards, next to the
  writer. \<open>json.Marshal\<close> and \<open>json.Unmarshal\<close> of encoding/json are parameters: each
  returns the text of its error (\<open>Inl\<close>) or its result (\<open>Inr\<close>).
\<close>

type_synonym store = "string \<rightharpoonup> Task"

definition getTasks ::
  "(store \<Rightarrow> string + bytes) \<Rightarrow> ResponseWriter \<Rightarrow> Request \<Rightarrow> store \<Rightarrow> ResponseWriter \<times> store" where
  "getTasks Marshal writer request ts =
     (case Marshal ts of
        Inl err \<Rightarrow> (http_Error writer err StatusInternalServerError, ts)
      | Inr response \<Rightarrow>
          (Write (WriteHeader (Header_Set writer ''Content-Type'' ''application/json'') StatusOK)
             response, ts))"

definition getTask ::
  "(Task \<Rightarrow> string + bytes) \<Rightarrow> ResponseWriter \<Rightarrow> Request \<Rightarrow> store \<Rightarrow> ResponseWriter \<times> store" where
  "getTask Marshal writer request ts =
     (let targetID = URLParam request ''id'' in
      case ts targetID of
        None \<Rightarrow> (http_Error writer ''Task with given ID was not found'' StatusBadRequest, ts)
      | Some task \<Rightarrow>
          (case Marshal task of
             Inl err \<Rightarrow> (http_Error writer err StatusBadRequest, ts)
           | Inr response \<Rightarrow>
               (Write (WriteHeader (Header_Set writer ''Content-Type'' ''application/json'') StatusOK)
                  response, ts)))"

definition postTask ::
  "(bytes \<Rightarrow> string + Task) \<Rightarrow> ResponseWriter \<Rightarrow> Request \<Rightarrow> store \<Rightarrow> ResponseWriter \<times> store" where
  "postTask Unmarshal writer request ts =
     (case Body request of
        Inl err \<Rightarrow> (http_Error writer err StatusBadRequest, ts)
      | Inr buffer \<Rightarrow>
          (case Unmarshal buffer of
             Inl err \<Rightarrow> (http_Error writer err StatusBadRequest, ts)
           | Inr newTask \<Rightarrow>
               (WriteHeader (Header_Set writer ''Content-Type'' ''application/json'') StatusCreated,
                ts(ID newTask \<mapsto> newTask))))"

definition deleteTask :: "ResponseWriter \<Rightarrow> Request \<Rightarrow> store \<Rightarrow> ResponseWriter \<times> store" where
  "deleteTask writer request ts =
     (let taskID = URLParam request ''id'' in
      case ts taskID of
        None \<Rightarrow> (http_Error writer ''Task was not found.'' StatusBadRequest, ts)
      | Some _ \<Rightarrow>
          (WriteHeader (Header_Set writer ''Content-Type'' ''application/json'') StatusOK,
           ts(taskID := None)))"

section \<open>The entry point\<close>

text \<open>
  \<open>main\<close> registers the four routes and calls \<open>http.ListenAndServe\<close>, which is a
  parameter here: the call either keeps serving and does not return (\<open>Blocks\<close>) or
  returns, with an error (\<open>Returns (Some err)\<close>, \<open>err\<close> the text of \<open>err.Error()\<close>) or
  with nil (\<open>Returns None\<close>). A run of \<open>main\<close> is the address and routes it listened
  with, what it printed to standard output, and whether it returned.
\<close>

datatype handler = GetTasks | PostTask | GetTask | DeleteTask

type_synonym router = "(string \<times> string \<times> handler) list"

datatype listen = Blocks | Returns "string option"

record process =
  listened :: "(string \<times> router) list"
  stdout :: string
  returned :: bool

definition main :: "(string \<Rightarrow> router \<Rightarrow> listen) \<Rightarrow> process" where
  "main ListenAndServe =
     (let router =
        [(''GET'', ''/tasks'', GetTasks),
         (''POST'', ''/tasks'', PostTask),
         (''GET'', ''/tasks/{id}'', GetTask),
         (''DELETE'', ''/tasks/{id}'', DeleteTask)]
      in case ListenAndServe '':8080'' router of
           Blocks \<Rightarrow>
             \<lparr>listened = [('':8080'', router)], stdout = [], returned = False\<rparr>
         | Returns (Some err) \<Rightarrow>
             \<lparr>listened = [('':8080'', router)],
              stdout = [CHR 0xD0, CHR 0x9E, CHR 0xD1, CHR 0x88, CHR 0xD0, CHR 0xB8, CHR 0xD0,
                         CHR 0xB1, CHR 0xD0, CHR 0xBA, CHR 0xD0, CHR 0xB0, CHR 0x20, CHR 0xD0,
                         CHR 0xBF, CHR 0xD1, CHR 0x80, CHR 0xD0, CHR 0xB8, CHR 0x20, CHR 0xD0,
                         CHR 0xB7, CHR 0xD0, CHR 0xB0, CHR 0xD0, CHR 0xBF, CHR 0xD1, CHR 0x83,
                         CHR 0xD1, CHR 0x81, CHR 0xD0, CHR 0xBA, CHR 0xD0, CHR 0xB5, CHR 0x20,
                         CHR 0xD1, CHR 0x81, CHR 0xD0, CHR 0xB5, CHR 0xD1, CHR 0x80, CHR 0xD0,
                         CHR 0xB2, CHR 0xD0, CHR 0xB5, CHR 0xD1, CHR 0x80, CHR 0xD0, CHR 0xB0,
                         CHR 0x3A, CHR 0x20] @ err,
              returned = True\<rparr>
         | Returns None \<Rightarrow>
             \<lparr>listened = [('':8080'', router)],
              stdout = ''Listen and Serve'' @ [CHR 0x0A],
              returned = True\<rparr>)"

section \<open>Serving a sequence of requests\<close>

text \<open>
  The router calls the handler registered for the method and path of a request, with a
  new writer. \<open>serve\<close> handles a list of requests one after the other and gives the
  task mapping they leave behind.
\<close>

definition handle ::
  "(store \<Rightarrow> string + bytes) \<Rightarrow> (Task \<Rightarrow> string + bytes) \<Rightarrow> (bytes \<Rightarrow> string + Task) \<Rightarrow>
   handler \<Rightarrow> Request \<Rightarrow> store \<Rightarrow> ResponseWriter \<times> store" where
  "handle MarshalMap MarshalTask Unmarshal h request ts =
     (case h of
        GetTasks \<Rightarrow> getTasks MarshalMap new_writer request ts
      | PostTask \<Rightarrow> postTask Unmarshal new_writer request ts
      | GetTask \<Rightarrow> getTask MarshalTask new_writer request ts
      | DeleteTask \<Rightarrow> deleteTask new_writer request ts)"

fun serve ::
  "(store \<Rightarrow> string + bytes) \<Rightarrow> (Task \<Rightarrow> string + bytes) \<Rightarrow> (bytes \<Rightarrow> string + Task) \<Rightarrow>
   (handler \<times> Request) list \<Rightarrow> store \<Rightarrow> store" where
  "serve MarshalMap MarshalTask Unmarshal [] ts = ts"
| "serve MarshalMap MarshalTask Unmarshal ((h, request) # rest) ts =
     serve MarshalMap MarshalTask Unmarshal rest
       (snd (handle MarshalMap MarshalTask Unmarshal h request ts))"

text \<open>Every key of the mapping is the \<open>ID\<close> of the task stored under it.\<close>

definition key_is_id :: "store \<Rightarrow> bool" where
  "key_is_id ts = (\<forall>k t. ts k = Some t \<longrightarrow> ID t = k)"

text \<open>
  The request the router builds for a path \<open>/tasks/{id}\<close> (no body), and the request
  it builds for \<open>/tasks\<close> with a body.
\<close>

definition id_request :: "string \<Rightarrow> Request" where
  "id_request i = \<lparr>URLParams = [''id'' \<mapsto> i], Body = Inr []\<rparr>"

definition body_request :: "bytes \<Rightarrow> Request" where
  "body_request b = \<lparr>URLParams = Map.empty, Body = Inr b\<rparr>"

definition unreadable_request :: "string \<Rightarrow> Request" where
  "unreadable_request err = \<lparr>URLParams = Map.empty, Body = Inl err\<rparr>"

section \<open>A small JSON codec\<close>

text \<open>
  Concrete functions for the \<open>json.Marshal\<close> and \<open>json.Unmarshal\<close> parameters, to run
  the handlers on concrete requests. The encoder writes a task as encoding/json does
  when no string needs an escape, and returns an error for the other tasks; that error
  stands for a failing \<open>json.Marshal\<close>. The decoder reads a JSON object whose strings
  have no escapes: the four fields in any order, a missing field left at its zero value,
  an unknown field with a string value ignored.
\<close>

definition plain :: "char \<Rightarrow> bool" where
  "plain c =
     (c \<noteq> CHR 0x22 \<and> c \<noteq> CHR 0x5C \<and> c \<noteq> CHR 0x3C \<and> c \<noteq> CHR 0x3E \<and> c \<noteq> CHR 0x26 \<and>
      (32::nat) \<le> of_char c)"

definition quoted :: "string \<Rightarrow> string" where
  "quoted s = CHR 0x22 # s @ [CHR 0x22]"

fun commas :: "string list \<Rightarrow> string" where
  "commas [] = []"
| "commas [x] = x"
| "commas (x # y # ys) = x @ '','' @ commas (y # ys)"

definition enc_strings :: "strings \<Rightarrow> string" where
  "enc_strings s =
     (case s of None \<Rightarrow> ''null'' | Some xs \<Rightarrow> ''['' @ commas (map quoted xs) @ '']'')"

definition enc_Task :: "Task \<Rightarrow> string" where
  "enc_Task t =
     ''{'' @ quoted ''id'' @ '':'' @ quoted (ID t) @ '','' @
     quoted ''description'' @ '':'' @ quoted (Description t) @ '','' @
     quoted ''note'' @ '':'' @ quoted (Note t) @ '','' @
     quoted ''applications'' @ '':'' @ enc_strings (Applications t) @ ''}''"

definition plain_Task :: "Task \<Rightarrow> bool" where
  "plain_Task t =
     (list_all plain (ID t) \<and> list_all plain (Description t) \<and> list_all plain (Note t) \<and>
      (case Applications t of None \<Rightarrow> True | Some xs \<Rightarrow> list_all (list_all plain) xs))"

definition Marshal_Task :: "Task \<Rightarrow> string + bytes" where
  "Marshal_Task t =
     (if plain_Task t then Inr (enc_Task t) else Inl ''json: unsupported value'')"

text \<open>The mapping is encoded for a given list of keys, in that order.\<close>

fun entries :: "string list \<Rightarrow> store \<Rightarrow> (string \<times> Task) list" where
  "entries [] ts = []"
| "entries (k # ks) ts =
     (case ts k of None \<Rightarrow> entries ks ts | Some t \<Rightarrow> (k, t) # entries ks ts)"

definition enc_entry :: "string \<times> Task \<Rightarrow> string" where
  "enc_entry e = quoted (fst e) @ '':'' @ enc_Task (snd e)"

definition plain_entry :: "string \<times> Task \<Rightarrow> bool" where
  "plain_entry e = (list_all plain (fst e) \<and> plain_Task (snd e))"

definition Marshal_tasks :: "string list \<Rightarrow> store \<Rightarrow> string + bytes" where
  "Marshal_tasks keys ts =
     (if list_all plain_entry (entries keys ts)
      then Inr (''{'' @ commas (map enc_entry (entries keys ts)) @ ''}'')
      else Inl ''json: unsupported value'')"

datatype token = Sym char | Str string | Word string

datatype mode = Out | InStr string | InWord string

definition letter :: "char \<Rightarrow> bool" where
  "letter c = ((97::nat) \<le> of_char c \<and> of_char c \<le> (122::nat))"

definition blank :: "char \<Rightarrow> bool" where
  "blank c = (c = CHR 0x20 \<or> c = CHR 0x0A)"

fun scan :: "mode \<Rightarrow> string \<Rightarrow> token list option" where
  "scan Out [] = Some []"
| "scan (InStr s) [] = None"
| "scan (InWord w) [] = Some [Word w]"
| "scan Out (c # cs) =
     (if c = CHR 0x22 then scan (InStr []) cs
      else if blank c then scan Out cs
      else if letter c then scan (InWord [c]) cs
      else map_option ((#) (Sym c)) (scan Out cs))"
| "scan (InStr s) (c # cs) =
     (if c = CHR 0x22 then map_option ((#) (Str s)) (scan Out cs)
      else if plain c then scan (InStr (s @ [c])) cs
      else None)"
| "scan (InWord w) (c # cs) =
     (if letter c then scan (InWord (w @ [c])) cs
      else if c = CHR 0x22 then None
      else if blank c then map_option ((#) (Word w)) (scan Out cs)
      else map_option ((#) (Word w)) (map_option ((#) (Sym c)) (scan Out cs)))"

datatype pstate =
    Start
  | Member Task
  | Colon Task string
  | Val Task string
  | Item Task "string list"
  | Sep Task "string list"
  | Next Task
  | Finish Task

definition set_field :: "string \<Rightarrow> string \<Rightarrow> Task \<Rightarrow> Task option" where
  "set_field k v t =
     (if k = ''id'' then Some (t\<lparr>ID := v\<rparr>)
      else if k = ''description'' then Some (t\<lparr>Description := v\<rparr>)
      else if k = ''note'' then Some (t\<lparr>Note := v\<rparr>)
      else if k = ''applications'' then None
      else Some t)"

fun step :: "pstate \<Rightarrow> token \<Rightarrow> pstate option" where
  "step Start (Sym c) =
     (if c = CHR ''{''
      then Some (Member \<lparr>ID = [], Description = [], Note = [], Applications = None\<rparr>)
      else None)"
| "step (Member t) (Str k) = Some (Colon t k)"
| "step (Colon t k) (Sym c) = (if c = CHR '':'' then Some (Val t k) else None)"
| "step (Val t k) (Str v) = map_option Next (set_field k v t)"
| "step (Val t k) (Word w) = (if w = ''null'' then Some (Next t) else None)"
| "step (Val t k) (Sym c) =
     (if c = CHR ''['' \<and> k = ''applications'' then Some (Item t []) else None)"
| "step (Item t xs) (Str s) = Some (Sep t (xs @ [s]))"
| "step (Item t xs) (Sym c) =
     (if c = CHR '']'' \<and> xs = [] then Some (Next (t\<lparr>Applications := Some []\<rparr>)) else None)"
| "step (Sep t xs) (Sym c) =
     (if c = CHR '','' then Some (Item t xs)
      else if c = CHR '']'' then Some (Next (t\<lparr>Applications := Some xs\<rparr>))
      else None)"
| "step (Next t) (Sym c) =
     (if c = CHR '','' then Some (Member t)
      else if c = CHR ''}'' then Some (Finish t)
      else None)"
| "step _ _ = None"

fun parse :: "pstate \<Rightarrow> token list \<Rightarrow> pstate option" where
  "parse s [] = Some s"
| "parse s (t # ts) = (case step s t of None \<Rightarrow> None | Some s' \<Rightarrow> parse s' ts)"

definition Unmarshal_Task :: "bytes \<Rightarrow> string + Task" where
  "Unmarshal_Task data =
     (case scan Out data of
        None \<Rightarrow> Inl ''invalid character in JSON input''
      | Some toks \<Rightarrow>
          (case parse Start toks of
             Some (Finish t) \<Rightarrow> Inr t
           | _ \<Rightarrow> Inl ''unexpected end of JSON input''))"

text \<open>
  A \<open>json.Marshal\<close> that fails with a given error, whatever it is asked to encode. It
  only serves to run the two encoding-error branches of the handlers: encoding/json
  itself does not fail on a task or on the mapping, whose fields are strings and slices of
  strings.
\<close>

definition failing_Marshal :: "string \<Rightarrow> 'a \<Rightarrow> string + bytes" where
  "failing_Marshal err v = Inl err"

text \<open>The listener parameter of \<open>main\<close>: one that keeps serving, and one that fails.\<close>

definition serving :: "string \<Rightarrow> router \<Rightarrow> listen" where
  "serving addr router = Blocks"

definition failing :: "string \<Rightarrow> string \<Rightarrow> router \<Rightarrow> listen" where
  "failing err addr router = Returns (Some err)"

section \<open>The responses a handler writes to a new writer\<close>

lemma http_Error_new_writer:
  "http_Error new_writer msg code =
     \<lparr>header = [''Content-Type'' \<mapsto> ''text/plain; charset=utf-8'',
                 ''X-Content-Type-Options'' \<mapsto> ''nosniff''],
      status = Some code,
      body = msg @ [CHR 0x0A]\<rparr>"
  by (simp add: http_Error_def Fprintln_def Write_def WriteHeader_def Header_Set_def
      new_writer_def)

lemma json_header_new_writer:
  "WriteHeader (Header_Set new_writer ''Content-Type'' ''application/json'') code =
     \<lparr>header = [''Content-Type'' \<mapsto> ''application/json''], status = Some code, body = []\<rparr>"
  by (simp add: WriteHeader_def Header_Set_def new_writer_def)

lemma json_reply_new_writer:
  "Write (WriteHeader (Header_Set new_writer ''Content-Type'' ''application/json'') code) p =
     \<lparr>header = [''Content-Type'' \<mapsto> ''application/json''], status = Some code, body = p\<rparr>"
  by (simp add: Write_def WriteHeader_def Header_Set_def new_writer_def)

lemma getTask_absent:
  "ts (URLParam request ''id'') = None \<Longrightarrow>
   getTask Marshal writer request ts =
     (http_Error writer ''Task with given ID was not found'' StatusBadRequest, ts)"
  by (simp add: getTask_def)

lemma getTask_present:
  "ts (URLParam request ''id'') = Some task \<Longrightarrow>
   getTask Marshal writer request ts =
     (case Marshal task of
        Inl err \<Rightarrow> (http_Error writer err StatusBadRequest, ts)
      | Inr response \<Rightarrow>
          (Write (WriteHeader (Header_Set writer ''Content-Type'' ''application/json'') StatusOK)
             response, ts))"
  by (simp add: getTask_def)

lemma deleteTask_absent:
  "ts (URLParam request ''id'') = None \<Longrightarrow>
   deleteTask writer request ts = (http_Error writer ''Task was not found.'' StatusBadRequest, ts)"
  by (simp add: deleteTask_def)

lemma deleteTask_present:
  "ts (URLParam request ''id'') = Some task \<Longrightarrow>
   deleteTask writer request ts =
     (WriteHeader (Header_Set writer ''Content-Type'' ''application/json'') StatusOK,
      ts(URLParam request ''id'' := None))"
  by (simp add: deleteTask_def)

lemma deleteTask_removes: "snd (deleteTask writer request ts) (URLParam request ''id'') = None"
  by (cases "ts (URLParam request ''id'')") (simp_all add: deleteTask_absent deleteTask_present)

lemma postTask_unreadable:
  "Body request = Inl err \<Longrightarrow>
   postTask Unmarshal writer request ts = (http_Error writer err StatusBadRequest, ts)"
  by (simp add: postTask_def)

lemma postTask_undecodable:
  "Body request = Inr buffer \<Longrightarrow> Unmarshal buffer = Inl err \<Longrightarrow>
   postTask Unmarshal writer request ts = (http_Error writer err StatusBadRequest, ts)"
  by (simp add: postTask_def)

lemma postTask_decoded:
  "Body request = Inr buffer \<Longrightarrow> Unmarshal buffer = Inr newTask \<Longrightarrow>
   postTask Unmarshal writer request ts =
     (WriteHeader (Header_Set writer ''Content-Type'' ''application/json'') StatusCreated,
      ts(ID newTask \<mapsto> newTask))"
  by (simp add: postTask_def)

lemma URLParam_id_request: "URLParam (id_request i) ''id'' = i"
  by (simp add: URLParam_def id_request_def)

lemma Body_body_request: "Body (body_request b) = Inr b"
  by (simp add: body_request_def)

lemma Body_unreadable_request: "Body (unreadable_request err) = Inl err"
  by (simp add: unreadable_request_def)

lemma dom_tasks: "dom tasks = {''1'', ''2''}"
  by (auto simp: tasks_def split: if_splits)

section \<open>Create\<close>

text \<open>
  C1. For every request whose body decodes into a task, \<open>postTask\<close> stores the decoded
  task under the key given by the \<open>ID\<close> field of the decoded body, whatever the URL
  parameters of the request are and whatever was stored under that key before (the new
  entry is the decoded task itself, no field of an older entry is kept), leaves every
  other key as it was, and responds with status 201, content type JSON and an empty
  body.
\<close>

theorem postTask_stores_decoded_task:
  assumes "Body request = Inr buffer" and "Unmarshal buffer = Inr newTask"
  shows "snd (postTask Unmarshal new_writer request ts) = ts(ID newTask \<mapsto> newTask) \<and>
    snd (postTask Unmarshal new_writer request ts) (ID newTask) = Some newTask \<and>
    (\<forall>k. k \<noteq> ID newTask \<longrightarrow> snd (postTask Unmarshal new_writer request ts) k = ts k) \<and>
    status (fst (postTask Unmarshal new_writer request ts)) = Some 201 \<and>
    header (fst (postTask Unmarshal new_writer request ts)) ''Content-Type'' =
      Some ''application/json'' \<and>
    body (fst (postTask Unmarshal new_writer request ts)) = []"
  using assms by (simp add: postTask_decoded json_header_new_writer StatusCreated_def)

text \<open>
  Witness for C1: the seed task "1" is replaced by a task posted with id "1", an empty
  note and an empty list of applications, in a request whose URL parameter \<open>id\<close> is "2".
\<close>

theorem postTask_stores_decoded_task_witness:
  "Body \<lparr>URLParams = [''id'' \<mapsto> ''2''],
      Body = Inr (enc_Task \<lparr>ID = ''1'', Description = ''x'', Note = [], Applications = Some []\<rparr>)\<rparr> =
     Inr (enc_Task \<lparr>ID = ''1'', Description = ''x'', Note = [], Applications = Some []\<rparr>) \<and>
   Unmarshal_Task (enc_Task \<lparr>ID = ''1'', Description = ''x'', Note = [], Applications = Some []\<rparr>) =
     Inr \<lparr>ID = ''1'', Description = ''x'', Note = [], Applications = Some []\<rparr> \<and>
   snd (postTask Unmarshal_Task new_writer
     \<lparr>URLParams = [''id'' \<mapsto> ''2''],
      Body = Inr (enc_Task \<lparr>ID = ''1'', Description = ''x'', Note = [], Applications = Some []\<rparr>)\<rparr>
     tasks) ''1'' = Some \<lparr>ID = ''1'', Description = ''x'', Note = [], Applications = Some []\<rparr> \<and>
   snd (postTask Unmarshal_Task new_writer
     \<lparr>URLParams = [''id'' \<mapsto> ''2''],
      Body = Inr (enc_Task \<lparr>ID = ''1'', Description = ''x'', Note = [], Applications = Some []\<rparr>)\<rparr>
     tasks) ''2'' = tasks ''2'' \<and>
   status (fst (postTask Unmarshal_Task new_writer
     \<lparr>URLParams = [''id'' \<mapsto> ''2''],
      Body = Inr (enc_Task \<lparr>ID = ''1'', Description = ''x'', Note = [], Applications = Some []\<rparr>)\<rparr>
     tasks)) = Some 201"
proof -
  let ?t = "\<lparr>ID = ''1'', Description = ''x'', Note = [], Applications = Some []\<rparr>"
  let ?r = "\<lparr>URLParams = [''id'' \<mapsto> ''2''], Body = Inr (enc_Task ?t)\<rparr>"
  have b: "Body ?r = Inr (enc_Task ?t)"
    by simp
  have u: "Unmarshal_Task (enc_Task ?t) = Inr ?t"
    by code_simp
  show ?thesis
    using b u
      postTask_stores_decoded_task [where Unmarshal = Unmarshal_Task and request = ?r
        and buffer = "enc_Task ?t" and newTask = ?t and ts = tasks, OF b u]
    by simp
qed

section \<open>Get one task\<close>

text \<open>
  C3, as the code has it. For every id that is not a key of the task mapping, \<open>getTask\<close>
  responds with status 400 and content type plain text, the body is the text
  "Task with given ID was not found" followed by one line feed (\<open>http.Error\<close> prints
  the message as a line), and the mapping is left unchanged.
\<close>

theorem getTask_not_found:
  assumes "ts (URLParam request ''id'') = None"
  shows "status (fst (getTask Marshal new_writer request ts)) = Some 400 \<and>
    header (fst (getTask Marshal new_writer request ts)) ''Content-Type'' =
      Some ''text/plain; charset=utf-8'' \<and>
    body (fst (getTask Marshal new_writer request ts)) =
      ''Task with given ID was not found'' @ [CHR 0x0A] \<and>
    snd (getTask Marshal new_writer request ts) = ts"
  using assms by (simp add: getTask_absent http_Error_new_writer StatusBadRequest_def)

text \<open>Witness for C3: \<open>GET /tasks/doesnotexist\<close> on the initial mapping.\<close>

theorem getTask_not_found_witness:
  "tasks (URLParam (id_request ''doesnotexist'') ''id'') = None \<and>
   status (fst (getTask Marshal_Task new_writer (id_request ''doesnotexist'') tasks)) = Some 400 \<and>
   body (fst (getTask Marshal_Task new_writer (id_request ''doesnotexist'') tasks)) =
     ''Task with given ID was not found'' @ [CHR 0x0A] \<and>
   snd (getTask Marshal_Task new_writer (id_request ''doesnotexist'') tasks) = tasks"
proof -
  have h: "tasks (URLParam (id_request ''doesnotexist'') ''id'') = None"
    by (simp add: URLParam_id_request tasks_def)
  show ?thesis
    using h getTask_not_found [where ts = tasks and request = "id_request ''doesnotexist''" and Marshal = Marshal_Task, OF h]
    by simp
qed

text \<open>
  C3 as stated fails: for \<open>GET /tasks/doesnotexist\<close> on the initial mapping the body is
  not the bare text "Task with given ID was not found"; it has 33 bytes, the last one
  the line feed.
\<close>

theorem getTask_not_found_exact_body_counterexample:
  "tasks (URLParam (id_request ''doesnotexist'') ''id'') = None \<and>
   body (fst (getTask Marshal_Task new_writer (id_request ''doesnotexist'') tasks)) \<noteq>
     ''Task with given ID was not found'' \<and>
   length (body (fst (getTask Marshal_Task new_writer (id_request ''doesnotexist'') tasks))) = 33 \<and>
   last (body (fst (getTask Marshal_Task new_writer (id_request ''doesnotexist'') tasks))) = CHR 0x0A"
proof -
  have h: "tasks (URLParam (id_request ''doesnotexist'') ''id'') = None"
    by (simp add: URLParam_id_request tasks_def)
  show ?thesis
    using h by (simp add: getTask_absent http_Error_new_writer)
qed

section \<open>Delete\<close>

text \<open>
  C4, as the code has it. For every id that is not a key of the task mapping,
  \<open>deleteTask\<close> responds with status 400 and content type plain text, the body is the
  text "Task was not found." (with its full stop) followed by one line feed, and the
  mapping is left unchanged. The text differs from the one \<open>getTask\<close> writes.
\<close>

theorem deleteTask_not_found:
  assumes "ts (URLParam request ''id'') = None"
  shows "status (fst (deleteTask new_writer request ts)) = Some 400 \<and>
    header (fst (deleteTask new_writer request ts)) ''Content-Type'' =
      Some ''text/plain; charset=utf-8'' \<and>
    body (fst (deleteTask new_writer request ts)) = ''Task was not found.'' @ [CHR 0x0A] \<and>
    body (fst (deleteTask new_writer request ts)) \<noteq>
      body (fst (getTask Marshal new_writer request ts)) \<and>
    snd (deleteTask new_writer request ts) = ts"
  using assms
  by (simp add: deleteTask_absent getTask_absent http_Error_new_writer StatusBadRequest_def)

text \<open>Witness for C4: \<open>DELETE /tasks/7\<close> on the initial mapping.\<close>

theorem deleteTask_not_found_witness:
  "tasks (URLParam (id_request ''7'') ''id'') = None \<and>
   status (fst (deleteTask new_writer (id_request ''7'') tasks)) = Some 400 \<and>
   body (fst (deleteTask new_writer (id_request ''7'') tasks)) =
     ''Task was not found.'' @ [CHR 0x0A] \<and>
   snd (deleteTask new_writer (id_request ''7'') tasks) = tasks"
proof -
  have h: "tasks (URLParam (id_request ''7'') ''id'') = None"
    by (simp add: URLParam_id_request tasks_def)
  show ?thesis
    using h deleteTask_not_found [where ts = tasks and request = "id_request ''7''" and Marshal = Marshal_Task, OF h]
    by simp
qed

text \<open>
  C4 as stated fails: for \<open>DELETE /tasks/7\<close> on the initial mapping the body is not the
  bare text "Task was not found."; it has 20 bytes, the last one the line feed.
\<close>

theorem deleteTask_not_found_exact_body_counterexample:
  "tasks (URLParam (id_request ''7'') ''id'') = None \<and>
   body (fst (deleteTask new_writer (id_request ''7'') tasks)) \<noteq> ''Task was not found.'' \<and>
   length (body (fst (deleteTask new_writer (id_request ''7'') tasks))) = 20 \<and>
   last (body (fst (deleteTask new_writer (id_request ''7'') tasks))) = CHR 0x0A"
proof -
  have h: "tasks (URLParam (id_request ''7'') ''id'') = None"
    by (simp add: URLParam_id_request tasks_def)
  show ?thesis
    using h by (simp add: deleteTask_absent http_Error_new_writer)
qed

text \<open>
  C7. For every id and every mapping, once \<open>deleteTask\<close> has handled a request for the
  id, handling the same request again, any number of times, leaves the mapping as the
  first delete left it; each of these later deletes responds as for an id that is not
  found, with status 400 and the not-found text, not with the success response.
\<close>

theorem deleteTask_idempotent:
  "deleteTask new_writer request (snd (deleteTask new_writer request ts)) =
     (http_Error new_writer ''Task was not found.'' StatusBadRequest,
      snd (deleteTask new_writer request ts)) \<and>
   ((\<lambda>s. snd (deleteTask new_writer request s)) ^^ n) (snd (deleteTask new_writer request ts)) =
     snd (deleteTask new_writer request ts) \<and>
   status (fst (deleteTask new_writer request (snd (deleteTask new_writer request ts)))) =
     Some 400 \<and>
   body (fst (deleteTask new_writer request (snd (deleteTask new_writer request ts)))) =
     ''Task was not found.'' @ [CHR 0x0A]"
proof -
  let ?ts1 = "snd (deleteTask new_writer request ts)"
  have again: "deleteTask new_writer request ?ts1 =
      (http_Error new_writer ''Task was not found.'' StatusBadRequest, ?ts1)"
    by (rule deleteTask_absent) (rule deleteTask_removes)
  have "((\<lambda>s. snd (deleteTask new_writer request s)) ^^ n) ?ts1 = ?ts1"
    by (induction n) (simp_all add: again)
  with again show ?thesis
    by (simp add: http_Error_new_writer StatusBadRequest_def)
qed

section \<open>Create on a bad body\<close>

text \<open>
  C9. For every request whose body cannot be read, and for every request whose body is
  read but cannot be decoded, \<open>postTask\<close> responds with status 400 and the message of the
  underlying error (printed as a line of plain text), and the task mapping after the
  request is the mapping before it.
\<close>

theorem postTask_error_atomic:
  assumes "Body request = Inl err \<or> (\<exists>buffer. Body request = Inr buffer \<and> Unmarshal buffer = Inl err)"
  shows "snd (postTask Unmarshal new_writer request ts) = ts \<and>
    fst (postTask Unmarshal new_writer request ts) = http_Error new_writer err StatusBadRequest \<and>
    status (fst (postTask Unmarshal new_writer request ts)) = Some 400 \<and>
    body (fst (postTask Unmarshal new_writer request ts)) = err @ [CHR 0x0A]"
  using assms
  by (auto simp: postTask_unreadable postTask_undecodable http_Error_new_writer
      StatusBadRequest_def)

text \<open>
  Witness for C9: a body whose read fails, and the body \<open>{\<close>, which is read and does
  not decode; both on the initial mapping.
\<close>

theorem postTask_error_atomic_witness:
  "Body (unreadable_request ''unexpected EOF'') = Inl ''unexpected EOF'' \<and>
   snd (postTask Unmarshal_Task new_writer (unreadable_request ''unexpected EOF'') tasks) = tasks \<and>
   status (fst (postTask Unmarshal_Task new_writer (unreadable_request ''unexpected EOF'') tasks)) =
     Some 400 \<and>
   Body (body_request ''{'') = Inr ''{'' \<and>
   Unmarshal_Task ''{'' = Inl ''unexpected end of JSON input'' \<and>
   snd (postTask Unmarshal_Task new_writer (body_request ''{'') tasks) = tasks \<and>
   status (fst (postTask Unmarshal_Task new_writer (body_request ''{'') tasks)) = Some 400 \<and>
   body (fst (postTask Unmarshal_Task new_writer (body_request ''{'') tasks)) =
     ''unexpected end of JSON input'' @ [CHR 0x0A]"
proof -
  have r: "Body (unreadable_request ''unexpected EOF'') = Inl ''unexpected EOF''"
    by (simp add: Body_unreadable_request)
  have b: "Body (body_request ''{'') = Inr ''{''"
    by (simp add: Body_body_request)
  have u: "Unmarshal_Task ''{'' = Inl ''unexpected end of JSON input''"
    by code_simp
  have 1: "Body (unreadable_request ''unexpected EOF'') = Inl ''unexpected EOF'' \<or>
      (\<exists>buffer. Body (unreadable_request ''unexpected EOF'') = Inr buffer \<and>
         Unmarshal_Task buffer = Inl ''unexpected EOF'')"
    using r by simp
  have 2: "Body (body_request ''{'') = Inl ''unexpected end of JSON input'' \<or>
      (\<exists>buffer. Body (body_request ''{'') = Inr buffer \<and>
         Unmarshal_Task buffer = Inl ''unexpected end of JSON input'')"
    using b u by simp
  show ?thesis
    using r b u postTask_error_atomic [OF 1, of tasks] postTask_error_atomic [OF 2, of tasks]
    by blast
qed

section \<open>List the tasks\<close>

text \<open>
  C2. The mapping the process starts with has exactly the two keys "1" and "2"; the task
  under "1" has id "1", the description given in the source (written here as its UTF-8
  bytes) and three applications; the task under "2" has id "2" and four applications.
  On this mapping \<open>getTasks\<close> responds with status 200 and content type JSON, and the
  body is what \<open>json.Marshal\<close> gives for the whole mapping, so it holds exactly these
  ids with these field values; the mapping is left as it is.
\<close>

theorem getTasks_initial:
  assumes "Marshal tasks = Inr response"
  shows "dom tasks = {''1'', ''2''} \<and>
    (\<exists>t. tasks ''1'' = Some t \<and> ID t = ''1'' \<and>
       Description t = ([CHR 0xD0, CHR 0xA1, CHR 0xD0, CHR 0xB4, CHR 0xD0, CHR 0xB5, CHR 0xD0,
                         CHR 0xBB, CHR 0xD0, CHR 0xB0, CHR 0xD1, CHR 0x82, CHR 0xD1, CHR 0x8C,
                         CHR 0x20, CHR 0xD1, CHR 0x84, CHR 0xD0, CHR 0xB8, CHR 0xD0, CHR 0xBD,
                         CHR 0xD0, CHR 0xB0, CHR 0xD0, CHR 0xBB, CHR 0xD1, CHR 0x8C, CHR 0xD0,
                         CHR 0xBD, CHR 0xD0, CHR 0xBE, CHR 0xD0, CHR 0xB5, CHR 0x20, CHR 0xD0,
                         CHR 0xB7, CHR 0xD0, CHR 0xB0, CHR 0xD0, CHR 0xB4, CHR 0xD0, CHR 0xB0,
                         CHR 0xD0, CHR 0xBD, CHR 0xD0, CHR 0xB8, CHR 0xD0, CHR 0xB5, CHR 0x20,
                         CHR 0xD1, CHR 0x82, CHR 0xD0, CHR 0xB5, CHR 0xD0, CHR 0xBC, CHR 0xD1,
                         CHR 0x8B] @
                        '' REST API'') \<and>
       len (Applications t) = 3) \<and>
    (\<exists>t. tasks ''2'' = Some t \<and> ID t = ''2'' \<and> len (Applications t) = 4) \<and>
    status (fst (getTasks Marshal new_writer request tasks)) = Some 200 \<and>
    header (fst (getTasks Marshal new_writer request tasks)) ''Content-Type'' =
      Some ''application/json'' \<and>
    body (fst (getTasks Marshal new_writer request tasks)) = response \<and>
    snd (getTasks Marshal new_writer request tasks) = tasks"
proof -
  have g: "getTasks Marshal new_writer request tasks =
      (\<lparr>header = [''Content-Type'' \<mapsto> ''application/json''], status = Some 200,
        body = response\<rparr>, tasks)"
    using assms by (simp add: getTasks_def json_reply_new_writer StatusOK_def)
  show ?thesis
    unfolding g by (simp add: dom_tasks) (simp add: tasks_def len_def)
qed

text \<open>Witness for C2: \<open>GET /tasks\<close> with the JSON encoder for the keys "1" and "2".\<close>

theorem getTasks_initial_witness:
  "Marshal_tasks [''1'', ''2''] tasks =
     Inr (''{'' @ commas (map enc_entry (entries [''1'', ''2''] tasks)) @ ''}'') \<and>
   status (fst (getTasks (Marshal_tasks [''1'', ''2'']) new_writer (body_request []) tasks)) =
     Some 200 \<and>
   body (fst (getTasks (Marshal_tasks [''1'', ''2'']) new_writer (body_request []) tasks)) =
     ''{'' @ commas (map enc_entry (entries [''1'', ''2''] tasks)) @ ''}''"
proof -
  have p: "list_all plain_entry (entries [''1'', ''2''] tasks)"
    by (simp add: tasks_def plain_entry_def plain_Task_def plain_def)
  have h: "Marshal_tasks [''1'', ''2''] tasks =
      Inr (''{'' @ commas (map enc_entry (entries [''1'', ''2''] tasks)) @ ''}'')"
    unfolding Marshal_tasks_def using p by simp
  show ?thesis
    using h
      getTasks_initial [where Marshal = "Marshal_tasks [''1'', ''2'']"
        and request = "body_request []", OF h]
    by blast
qed

text \<open>
  C8. When \<open>json.Marshal\<close> fails, \<open>getTasks\<close> responds with status 500 and \<open>getTask\<close>
  with status 400. Each reply is the one \<open>http.Error\<close> writes for the message of the
  error: plain text, with the message as its body, written as a line. The two status
  codes differ for every such failure, and the mapping is left as it is.
\<close>

theorem marshal_failure_status:
  "(MarshalMap ts = Inl err \<longrightarrow>
      fst (getTasks MarshalMap new_writer request ts) =
        http_Error new_writer err StatusInternalServerError \<and>
      status (fst (getTasks MarshalMap new_writer request ts)) = Some 500 \<and>
      header (fst (getTasks MarshalMap new_writer request ts)) ''Content-Type'' =
        Some ''text/plain; charset=utf-8'' \<and>
      body (fst (getTasks MarshalMap new_writer request ts)) = err @ [CHR 0x0A] \<and>
      snd (getTasks MarshalMap new_writer request ts) = ts) \<and>
   (ts (URLParam request' ''id'') = Some task \<and> MarshalTask task = Inl err' \<longrightarrow>
      fst (getTask MarshalTask new_writer request' ts) =
        http_Error new_writer err' StatusBadRequest \<and>
      status (fst (getTask MarshalTask new_writer request' ts)) = Some 400 \<and>
      header (fst (getTask MarshalTask new_writer request' ts)) ''Content-Type'' =
        Some ''text/plain; charset=utf-8'' \<and>
      body (fst (getTask MarshalTask new_writer request' ts)) = err' @ [CHR 0x0A] \<and>
      snd (getTask MarshalTask new_writer request' ts) = ts) \<and>
   (MarshalMap ts = Inl err \<and> ts (URLParam request' ''id'') = Some task \<and>
    MarshalTask task = Inl err' \<longrightarrow>
      status (fst (getTasks MarshalMap new_writer request ts)) \<noteq>
      status (fst (getTask MarshalTask new_writer request' ts)))"
  by (simp add: getTasks_def getTask_present http_Error_new_writer
      StatusInternalServerError_def StatusBadRequest_def)

text \<open>
  Witness for C8: \<open>GET /tasks\<close> and \<open>GET /tasks/3\<close> on the initial mapping extended by
  a task with id "3", with a \<open>json.Marshal\<close> that fails with the message
  "json: unsupported value". The task is found, so the reply of \<open>getTask\<close> is the one
  of the encoding branch: its body is the message of the encoder's error.
\<close>

theorem marshal_failure_status_witness:
  "failing_Marshal ''json: unsupported value''
     (tasks(''3'' \<mapsto>
        \<lparr>ID = ''3'', Description = ''d'', Note = ''n'', Applications = Some [''a'']\<rparr>)) =
     Inl ''json: unsupported value'' \<and>
   (tasks(''3'' \<mapsto>
      \<lparr>ID = ''3'', Description = ''d'', Note = ''n'', Applications = Some [''a'']\<rparr>))
     (URLParam (id_request ''3'') ''id'') =
     Some \<lparr>ID = ''3'', Description = ''d'', Note = ''n'', Applications = Some [''a'']\<rparr> \<and>
   failing_Marshal ''json: unsupported value''
     \<lparr>ID = ''3'', Description = ''d'', Note = ''n'', Applications = Some [''a'']\<rparr> =
     Inl ''json: unsupported value'' \<and>
   status (fst (getTasks (failing_Marshal ''json: unsupported value'') new_writer
     (body_request [])
     (tasks(''3'' \<mapsto>
        \<lparr>ID = ''3'', Description = ''d'', Note = ''n'', Applications = Some [''a'']\<rparr>)))) =
     Some 500 \<and>
   body (fst (getTasks (failing_Marshal ''json: unsupported value'') new_writer
     (body_request [])
     (tasks(''3'' \<mapsto>
        \<lparr>ID = ''3'', Description = ''d'', Note = ''n'', Applications = Some [''a'']\<rparr>)))) =
     ''json: unsupported value'' @ [CHR 0x0A] \<and>
   status (fst (getTask (failing_Marshal ''json: unsupported value'') new_writer
     (id_request ''3'')
     (tasks(''3'' \<mapsto>
        \<lparr>ID = ''3'', Description = ''d'', Note = ''n'', Applications = Some [''a'']\<rparr>)))) =
     Some 400 \<and>
   body (fst (getTask (failing_Marshal ''json: unsupported value'') new_writer
     (id_request ''3'')
     (tasks(''3'' \<mapsto>
        \<lparr>ID = ''3'', Description = ''d'', Note = ''n'', Applications = Some [''a'']\<rparr>)))) =
     ''json: unsupported value'' @ [CHR 0x0A]"
proof -
  let ?t = "\<lparr>ID = ''3'', Description = ''d'', Note = ''n'', Applications = Some [''a'']\<rparr>"
  let ?ts = "tasks(''3'' \<mapsto> ?t)"
  let ?e = "''json: unsupported value''"
  have m: "failing_Marshal ?e ?ts = Inl ?e"
    by (simp add: failing_Marshal_def)
  have k: "?ts (URLParam (id_request ''3'') ''id'') = Some ?t"
    by (simp add: URLParam_id_request)
  have t: "failing_Marshal ?e ?t = Inl ?e"
    by (simp add: failing_Marshal_def)
  show ?thesis
    using m k t
      marshal_failure_status [where MarshalMap = "failing_Marshal ?e"
        and MarshalTask = "failing_Marshal ?e" and ts = ?ts and err = ?e and err' = ?e
        and task = ?t and request = "body_request []" and request' = "id_request ''3''"]
    by blast
qed

section \<open>The key of an entry is the id of its task\<close>

lemma key_is_id_tasks: "key_is_id tasks"
  by (simp add: key_is_id_def tasks_def)

lemma key_is_id_handle:
  assumes "key_is_id ts"
  shows "key_is_id (snd (handle MarshalMap MarshalTask Unmarshal h request ts))"
proof (cases h)
  case GetTasks
  with assms show ?thesis
    by (simp add: handle_def getTasks_def split: sum.splits)
next
  case PostTask
  with assms show ?thesis
    by (auto simp: handle_def postTask_def key_is_id_def split: sum.splits)
next
  case GetTask
  with assms show ?thesis
    by (simp add: handle_def getTask_def split: sum.splits option.splits)
next
  case DeleteTask
  with assms show ?thesis
    by (auto simp: handle_def deleteTask_def key_is_id_def Let_def split: option.splits if_splits)
qed

lemma key_is_id_serve:
  "key_is_id ts \<Longrightarrow> key_is_id (serve MarshalMap MarshalTask Unmarshal calls ts)"
proof (induction calls arbitrary: ts)
  case Nil
  then show ?case by simp
next
  case (Cons c calls)
  obtain h request where c: "c = (h, request)"
    by (cases c)
  from Cons.prems show ?case
    by (simp add: c Cons.IH key_is_id_handle)
qed

text \<open>
  C5. In every mapping reached from the initial one by handling any sequence of requests
  (creates and deletes, and the two read-only handlers as well), every key equals the
  \<open>ID\<close> field of the task it maps to.
\<close>

theorem reachable_key_is_id:
  "key_is_id (serve MarshalMap MarshalTask Unmarshal calls tasks)"
  by (rule key_is_id_serve) (rule key_is_id_tasks)

text \<open>
  Witness for C5: after a create of task "3" and a delete of task "1" the mapping has
  the task with id "3" under the key "3".
\<close>

theorem reachable_key_is_id_witness:
  "serve (Marshal_tasks []) Marshal_Task Unmarshal_Task
     [(PostTask, body_request (enc_Task
         \<lparr>ID = ''3'', Description = ''d'', Note = ''n'', Applications = Some [''a'']\<rparr>)),
      (DeleteTask, id_request ''1'')] tasks ''3'' =
     Some \<lparr>ID = ''3'', Description = ''d'', Note = ''n'', Applications = Some [''a'']\<rparr> \<and>
   ID (the (serve (Marshal_tasks []) Marshal_Task Unmarshal_Task
     [(PostTask, body_request (enc_Task
         \<lparr>ID = ''3'', Description = ''d'', Note = ''n'', Applications = Some [''a'']\<rparr>)),
      (DeleteTask, id_request ''1'')] tasks ''3'')) = ''3''"
proof -
  let ?t = "\<lparr>ID = ''3'', Description = ''d'', Note = ''n'', Applications = Some [''a'']\<rparr>"
  let ?calls = "[(PostTask, body_request (enc_Task ?t)), (DeleteTask, id_request ''1'')]"
  let ?ts = "serve (Marshal_tasks []) Marshal_Task Unmarshal_Task ?calls tasks"
  have u: "Unmarshal_Task (enc_Task ?t) = Inr ?t"
    by code_simp
  have p: "snd (postTask Unmarshal_Task new_writer (body_request (enc_Task ?t)) tasks) =
      tasks(''3'' \<mapsto> ?t)"
    using postTask_decoded [where Unmarshal = Unmarshal_Task
        and request = "body_request (enc_Task ?t)" and ts = tasks, OF Body_body_request u]
    by simp
  have k: "(tasks(''3'' \<mapsto> ?t)) (URLParam (id_request ''1'') ''id'') = Some (the (tasks ''1''))"
    by (simp add: URLParam_id_request tasks_def)
  have d: "snd (deleteTask new_writer (id_request ''1'') (tasks(''3'' \<mapsto> ?t))) =
      (tasks(''3'' \<mapsto> ?t))(''1'' := None)"
    using deleteTask_present [where ts = "tasks(''3'' \<mapsto> ?t)"
        and request = "id_request ''1''", OF k]
    by (simp add: URLParam_id_request)
  have s: "?ts ''3'' = Some ?t"
    by (simp add: handle_def p d)
  have "\<forall>k t. ?ts k = Some t \<longrightarrow> ID t = k"
    using reachable_key_is_id [of "Marshal_tasks []" Marshal_Task Unmarshal_Task ?calls]
    by (simp only: key_is_id_def)
  with s have "ID (the (?ts ''3'')) = ''3''"
    by (metis option.sel)
  with s show ?thesis
    by blast
qed

section \<open>Create, then get\<close>

text \<open>
  C6. For every task: when a request whose body decodes to the task has been handled by
  \<open>postTask\<close>, \<open>getTask\<close> for the \<open>ID\<close> of the task responds with status 200 and content
  type JSON, and its body is the encoding of the task; it decodes to the posted task
  itself, so to the same id, description, note and applications, in the same order. The
  encoding is taken to succeed on the task and the decoder to read the encoding back,
  as encoding/json does.
\<close>

theorem post_then_get_round_trip:
  assumes "Body post = Inr buffer" and "Unmarshal buffer = Inr task"
    and "URLParam get ''id'' = ID task"
    and "Marshal task = Inr response" and "Unmarshal response = Inr task"
  shows
    "status (fst (getTask Marshal new_writer get
        (snd (postTask Unmarshal new_writer post ts)))) = Some 200 \<and>
     header (fst (getTask Marshal new_writer get
        (snd (postTask Unmarshal new_writer post ts)))) ''Content-Type'' =
       Some ''application/json'' \<and>
     body (fst (getTask Marshal new_writer get
        (snd (postTask Unmarshal new_writer post ts)))) = response \<and>
     Unmarshal (body (fst (getTask Marshal new_writer get
        (snd (postTask Unmarshal new_writer post ts))))) = Inr task \<and>
     (\<exists>t. Unmarshal (body (fst (getTask Marshal new_writer get
        (snd (postTask Unmarshal new_writer post ts))))) = Inr t \<and>
        ID t = ID task \<and> Description t = Description task \<and> Note t = Note task \<and>
        Applications t = Applications task)"
proof -
  let ?ts = "snd (postTask Unmarshal new_writer post ts)"
  have "?ts (URLParam get ''id'') = Some task"
    using assms(1-3) by (simp add: postTask_decoded)
  then have "getTask Marshal new_writer get ?ts =
      (\<lparr>header = [''Content-Type'' \<mapsto> ''application/json''], status = Some 200,
        body = response\<rparr>, ?ts)"
    using assms(4) by (simp add: getTask_present json_reply_new_writer StatusOK_def)
  then show ?thesis
    using assms(5) by simp
qed

text \<open>
  Witness for C6: \<open>POST /tasks\<close> with the task of id "3", then \<open>GET /tasks/3\<close>, on the
  initial mapping.
\<close>

theorem post_then_get_round_trip_witness:
  "Body (body_request (enc_Task
       \<lparr>ID = ''3'', Description = ''d'', Note = ''n'', Applications = Some [''a'']\<rparr>)) =
     Inr (enc_Task \<lparr>ID = ''3'', Description = ''d'', Note = ''n'', Applications = Some [''a'']\<rparr>) \<and>
   Unmarshal_Task (enc_Task
       \<lparr>ID = ''3'', Description = ''d'', Note = ''n'', Applications = Some [''a'']\<rparr>) =
     Inr \<lparr>ID = ''3'', Description = ''d'', Note = ''n'', Applications = Some [''a'']\<rparr> \<and>
   URLParam (id_request ''3'') ''id'' =
     ID \<lparr>ID = ''3'', Description = ''d'', Note = ''n'', Applications = Some [''a'']\<rparr> \<and>
   Marshal_Task \<lparr>ID = ''3'', Description = ''d'', Note = ''n'', Applications = Some [''a'']\<rparr> =
     Inr (enc_Task \<lparr>ID = ''3'', Description = ''d'', Note = ''n'', Applications = Some [''a'']\<rparr>) \<and>
   status (fst (getTask Marshal_Task new_writer (id_request ''3'')
     (snd (postTask Unmarshal_Task new_writer
       (body_request (enc_Task
         \<lparr>ID = ''3'', Description = ''d'', Note = ''n'', Applications = Some [''a'']\<rparr>))
       tasks)))) = Some 200 \<and>
   Unmarshal_Task (body (fst (getTask Marshal_Task new_writer (id_request ''3'')
     (snd (postTask Unmarshal_Task new_writer
       (body_request (enc_Task
         \<lparr>ID = ''3'', Description = ''d'', Note = ''n'', Applications = Some [''a'']\<rparr>))
       tasks))))) =
     Inr \<lparr>ID = ''3'', Description = ''d'', Note = ''n'', Applications = Some [''a'']\<rparr>"
proof -
  let ?t = "\<lparr>ID = ''3'', Description = ''d'', Note = ''n'', Applications = Some [''a'']\<rparr>"
  have b: "Body (body_request (enc_Task ?t)) = Inr (enc_Task ?t)"
    by (rule Body_body_request)
  have u: "Unmarshal_Task (enc_Task ?t) = Inr ?t"
    by code_simp
  have i: "URLParam (id_request ''3'') ''id'' = ID ?t"
    by (simp add: URLParam_id_request)
  have m: "Marshal_Task ?t = Inr (enc_Task ?t)"
    by (simp add: Marshal_Task_def plain_Task_def plain_def)
  show ?thesis
    using b u i m
      post_then_get_round_trip [where Unmarshal = Unmarshal_Task and Marshal = Marshal_Task
        and post = "body_request (enc_Task ?t)" and get = "id_request ''3''"
        and buffer = "enc_Task ?t" and task = ?t and response = "enc_Task ?t"
        and ts = tasks, OF b u i m u]
    by blast
qed

section \<open>Running the entry point\<close>

lemma main_listener_error:
  "main (failing err) =
     \<lparr>listened =
        [('':8080'',
          [(''GET'', ''/tasks'', GetTasks),
           (''POST'', ''/tasks'', PostTask),
           (''GET'', ''/tasks/{id}'', GetTask),
           (''DELETE'', ''/tasks/{id}'', DeleteTask)])],
      stdout = [CHR 0xD0, CHR 0x9E, CHR 0xD1, CHR 0x88, CHR 0xD0, CHR 0xB8, CHR 0xD0,
                 CHR 0xB1, CHR 0xD0, CHR 0xBA, CHR 0xD0, CHR 0xB0, CHR 0x20, CHR 0xD0,
                 CHR 0xBF, CHR 0xD1, CHR 0x80, CHR 0xD0, CHR 0xB8, CHR 0x20, CHR 0xD0,
                 CHR 0xB7, CHR 0xD0, CHR 0xB0, CHR 0xD0, CHR 0xBF, CHR 0xD1, CHR 0x83,
                 CHR 0xD1, CHR 0x81, CHR 0xD0, CHR 0xBA, CHR 0xD0, CHR 0xB5, CHR 0x20,
                 CHR 0xD1, CHR 0x81, CHR 0xD0, CHR 0xB5, CHR 0xD1, CHR 0x80, CHR 0xD0,
                 CHR 0xB2, CHR 0xD0, CHR 0xB5, CHR 0xD1, CHR 0x80, CHR 0xD0, CHR 0xB0,
                 CHR 0x3A, CHR 0x20] @ err,
      returned = True\<rparr>"
  by (simp add: main_def failing_def)

text \<open>
  C10, evaluated where it fails. \<open>main\<close> listens on \<open>:8080\<close> with the four routes. While
  the listener serves, \<open>main\<close> has printed nothing and has not returned: the line that
  prints "Listen and Serve" comes after the call of \<open>http.ListenAndServe\<close> and is
  reached only if that call returns without an error.
\<close>

theorem main_serving_prints_nothing:
  "main serving =
     \<lparr>listened =
        [('':8080'',
          [(''GET'', ''/tasks'', GetTasks),
           (''POST'', ''/tasks'', PostTask),
           (''GET'', ''/tasks/{id}'', GetTask),
           (''DELETE'', ''/tasks/{id}'', DeleteTask)])],
      stdout = [],
      returned = False\<rparr>"
  by (simp add: main_def serving_def)

end
